theory Spec2Isabelle
  imports Main "HOL-Library.Sublist"
begin

section \<open>The notebook \<open>Example_Bagging.ipynb\<close> as a state-passing program\<close>

text \<open>
  The notebook is a straight-line Python script whose cells run top to bottom in one
  global namespace. Everything it does is: import names from two libraries
  (scikit-learn and deslib), call library functions, constructors and methods, read
  attributes, bind the results to global names, and print. None of the library code is
  part of the notebook, so the library is a parameter of the model: a function that
  receives an operation, its positional and keyword arguments and the library's own state
  (object contents, random number generators) and either raises or returns a value and
  the next state. Every theorem below that mentions \<open>lib\<close> holds for every such library.
\<close>

subsection \<open>Identifiers\<close>

text \<open>
  The identifiers that occur in the notebook: module path components, imported names,
  global variables, attribute and method names, keyword parameters. They keep their
  Python spelling, except the variables \<open>X\<close> and \<open>y\<close>, which are written \<open>X'\<close> and \<open>y'\<close>.
  The last one, \<open>random_state\<close>, is scikit-learn's seed parameter; the notebook never
  writes it, and it is listed so that this can be stated.
\<close>

datatype ident =
    sklearn | datasets | load_breast_cancer | model_selection | train_test_split
  | preprocessing | StandardScaler | linear_model | Perceptron | calibration
  | CalibratedClassifierCV | ensemble | BaggingClassifier
  | deslib | dcs | des | a_priori | des_p | knora_u | knora_e | meta_des
  | OLA | APriori | MCB | DESP | KNORAU | KNORAE | METADES
  | data | target | X' | y' | X_train | X_test | y_train | y_test | X_dsel | y_dsel
  | test_size | max_iter | n_estimators
  | scalar | fit_transform | transform | fit | score
  | model | pool_classifiers
  | knorau | kne | desp | ola | mcb | apriori | meta
  | random_state

text \<open>A dotted module path such as \<open>sklearn.model_selection\<close>.\<close>

type_synonym modpath = "ident list"

subsection \<open>Values, operations, exceptions\<close>

text \<open>
  A keyword argument of the notebook is always a literal. \<open>FloatLit m e\<close> is the decimal
  literal \<open>m * 10^e\<close> as it is written in the source: \<open>0.33\<close> is \<open>FloatLit 33 (-2)\<close>.
\<close>

datatype literal = IntLit int | FloatLit int int

text \<open>
  A Python value is an object owned by the library (\<open>Obj\<close>), a sequence of values that a
  tuple assignment can unpack (\<open>Tup\<close>), or the callable that \<open>from m import n\<close> binds
  to \<open>n\<close> (\<open>Callable m n\<close>).
\<close>

datatype 'o val = Obj 'o | Tup "'o val list" | Callable modpath ident

datatype op =
    Import modpath ident
  | Call modpath ident
  | CallValue
  | Method ident
  | GetAttr ident

datatype 'e exn = Raised 'e | NameError ident | UnpackError

type_synonym kwargs = "(ident \<times> literal) list"

type_synonym ('o, 'w, 'e) library =
  "op \<Rightarrow> 'o val list \<Rightarrow> kwargs \<Rightarrow> 'w \<Rightarrow> 'e + ('o val \<times> 'w)"

text \<open>
  What a run does is observable as the sequence of its library invocations (with the
  values passed and the outcome) and of the lines it prints.
\<close>

datatype ('o, 'e) event =
    Invoked op "'o val list" kwargs "'e + 'o val"
  | Printed string "'o val"

record ('o, 'w, 'e) state =
  globals :: "ident \<rightharpoonup> 'o val"
  world :: 'w
  events :: "('o, 'e) event list"

type_synonym ('a, 'o, 'w, 'e) comp =
  "('o, 'w, 'e) state \<Rightarrow> ('e exn \<times> ('o, 'w, 'e) state) + ('a \<times> ('o, 'w, 'e) state)"

type_synonym ('o, 'w, 'e) stmt =
  "('o, 'w, 'e) state \<Rightarrow> ('e exn \<times> ('o, 'w, 'e) state) + ('o, 'w, 'e) state"

subsection \<open>Expressions\<close>

text \<open>
  A library invocation is logged whether it returns or raises. An exception leaves the
  computation at once, with the state in which it was raised.
\<close>

definition invoke ::
  "('o, 'w, 'e) library \<Rightarrow> op \<Rightarrow> 'o val list \<Rightarrow> kwargs \<Rightarrow> ('o val, 'o, 'w, 'e) comp" where
  "invoke lib f args kw s =
     (case lib f args kw (world s) of
        Inl e \<Rightarrow> Inl (Raised e, s\<lparr>events := events s @ [Invoked f args kw (Inl e)]\<rparr>)
      | Inr (v, w') \<Rightarrow>
          Inr (v, s\<lparr>world := w', events := events s @ [Invoked f args kw (Inr v)]\<rparr>))"

text \<open>Reading a global name; an unbound name raises \<open>NameError\<close>.\<close>

definition var :: "ident \<Rightarrow> ('o val, 'o, 'w, 'e) comp" where
  "var x s = (case globals s x of None \<Rightarrow> Inl (NameError x, s) | Some v \<Rightarrow> Inr (v, s))"

text \<open>Arguments are evaluated left to right.\<close>

fun eval_args :: "('o val, 'o, 'w, 'e) comp list \<Rightarrow> ('o val list, 'o, 'w, 'e) comp" where
  "eval_args [] s = Inr ([], s)"
| "eval_args (a # as) s =
     (case a s of
        Inl x \<Rightarrow> Inl x
      | Inr (v, s1) \<Rightarrow>
          (case eval_args as s1 of
             Inl x \<Rightarrow> Inl x
           | Inr (vs, s2) \<Rightarrow> Inr (v # vs, s2)))"

text \<open>
  \<open>f(a1, ..., k=c)\<close>: the name \<open>f\<close> is looked up, then the arguments are evaluated, then
  the library is entered. A name bound by an import enters the library under its
  qualified name; any other value is handed to the library as the callee.
\<close>

definition call ::
  "('o, 'w, 'e) library \<Rightarrow> ident \<Rightarrow> ('o val, 'o, 'w, 'e) comp list \<Rightarrow> kwargs
     \<Rightarrow> ('o val, 'o, 'w, 'e) comp" where
  "call lib f args kw s =
     (case var f s of
        Inl x \<Rightarrow> Inl x
      | Inr (fv, s1) \<Rightarrow>
          (case eval_args args s1 of
             Inl x \<Rightarrow> Inl x
           | Inr (vs, s2) \<Rightarrow>
               (case fv of
                  Callable m n \<Rightarrow> invoke lib (Call m n) vs kw s2
                | _ \<Rightarrow> invoke lib CallValue (fv # vs) kw s2)))"

text \<open>\<open>r.m(a1, ...)\<close>: the receiver, then the arguments, then the library.\<close>

definition method_call ::
  "('o, 'w, 'e) library \<Rightarrow> ('o val, 'o, 'w, 'e) comp \<Rightarrow> ident
     \<Rightarrow> ('o val, 'o, 'w, 'e) comp list \<Rightarrow> ('o val, 'o, 'w, 'e) comp" where
  "method_call lib r m args s =
     (case r s of
        Inl x \<Rightarrow> Inl x
      | Inr (rv, s1) \<Rightarrow>
          (case eval_args args s1 of
             Inl x \<Rightarrow> Inl x
           | Inr (vs, s2) \<Rightarrow> invoke lib (Method m) (rv # vs) [] s2))"

text \<open>\<open>r.a\<close>\<close>

definition get_attr ::
  "('o, 'w, 'e) library \<Rightarrow> ('o val, 'o, 'w, 'e) comp \<Rightarrow> ident \<Rightarrow> ('o val, 'o, 'w, 'e) comp" where
  "get_attr lib r a s =
     (case r s of
        Inl x \<Rightarrow> Inl x
      | Inr (rv, s1) \<Rightarrow> invoke lib (GetAttr a) [rv] [] s1)"

subsection \<open>Statements\<close>

text \<open>\<open>from m import n\<close>\<close>

definition import_from :: "('o, 'w, 'e) library \<Rightarrow> modpath \<Rightarrow> ident \<Rightarrow> ('o, 'w, 'e) stmt" where
  "import_from lib m n s =
     (case invoke lib (Import m n) [] [] s of
        Inl x \<Rightarrow> Inl x
      | Inr (_, s1) \<Rightarrow> Inr (s1\<lparr>globals := (globals s1)(n \<mapsto> Callable m n)\<rparr>))"

text \<open>\<open>x = e\<close>\<close>

definition assign :: "ident \<Rightarrow> ('o val, 'o, 'w, 'e) comp \<Rightarrow> ('o, 'w, 'e) stmt" where
  "assign x e s =
     (case e s of
        Inl err \<Rightarrow> Inl err
      | Inr (v, s1) \<Rightarrow> Inr (s1\<lparr>globals := (globals s1)(x \<mapsto> v)\<rparr>))"

text \<open>
  \<open>x1, x2, x3, x4 = e\<close>: the value must be a sequence of as many elements as there are
  targets, which are then bound from left to right.
\<close>

fun bind_all :: "ident list \<Rightarrow> 'o val list \<Rightarrow> (ident \<rightharpoonup> 'o val) \<Rightarrow> (ident \<rightharpoonup> 'o val)" where
  "bind_all (x # xs) (v # vs) g = bind_all xs vs (g(x \<mapsto> v))"
| "bind_all _ _ g = g"

definition assign_tuple ::
  "ident list \<Rightarrow> ('o val, 'o, 'w, 'e) comp \<Rightarrow> ('o, 'w, 'e) stmt" where
  "assign_tuple xs e s =
     (case e s of
        Inl err \<Rightarrow> Inl err
      | Inr (v, s1) \<Rightarrow>
          (case v of
             Tup vs \<Rightarrow>
               if length vs = length xs
               then Inr (s1\<lparr>globals := bind_all xs vs (globals s1)\<rparr>)
               else Inl (UnpackError, s1)
           | _ \<Rightarrow> Inl (UnpackError, s1)))"

text \<open>An expression statement: \<open>e\<close> is evaluated and its value dropped.\<close>

definition expr_stmt :: "('o val, 'o, 'w, 'e) comp \<Rightarrow> ('o, 'w, 'e) stmt" where
  "expr_stmt e s = (case e s of Inl err \<Rightarrow> Inl err | Inr (_, s1) \<Rightarrow> Inr s1)"

text \<open>\<open>print('label', e)\<close>\<close>

definition print_line :: "string \<Rightarrow> ('o val, 'o, 'w, 'e) comp \<Rightarrow> ('o, 'w, 'e) stmt" where
  "print_line label e s =
     (case e s of
        Inl err \<Rightarrow> Inl err
      | Inr (v, s1) \<Rightarrow> Inr (s1\<lparr>events := events s1 @ [Printed label v]\<rparr>))"

text \<open>Statements run in order; the first exception ends the run.\<close>

fun exec :: "('o, 'w, 'e) stmt list \<Rightarrow> ('o, 'w, 'e) stmt" where
  "exec [] s = Inr s"
| "exec (c # cs) s = (case c s of Inl x \<Rightarrow> Inl x | Inr s1 \<Rightarrow> exec cs s1)"

subsection \<open>The cells of the notebook\<close>

text \<open>
  One definition per code cell, in the order of the file. The second code cell holds a
  comment only. A method call is one library entry (attribute lookup and call are not
  separated), and the rich display of a cell's last expression is not modelled: the
  output of the notebook is what \<open>print\<close> writes.
\<close>

definition import_cell :: "('o, 'w, 'e) library \<Rightarrow> ('o, 'w, 'e) stmt list" where
  "import_cell lib =
    [import_from lib [sklearn, datasets] load_breast_cancer,
     import_from lib [sklearn, model_selection] train_test_split,
     import_from lib [sklearn, preprocessing] StandardScaler,
     import_from lib [sklearn, linear_model] Perceptron,
     import_from lib [sklearn, calibration] CalibratedClassifierCV,
     import_from lib [sklearn, ensemble] BaggingClassifier,
     import_from lib [deslib, dcs, ola] OLA,
     import_from lib [deslib, dcs, a_priori] APriori,
     import_from lib [deslib, dcs, mcb] MCB,
     import_from lib [deslib, des, des_p] DESP,
     import_from lib [deslib, des, knora_u] KNORAU,
     import_from lib [deslib, des, knora_e] KNORAE,
     import_from lib [deslib, des, meta_des] METADES]"

definition data_cell :: "('o, 'w, 'e) library \<Rightarrow> ('o, 'w, 'e) stmt list" where
  "data_cell lib =
    [assign data (call lib load_breast_cancer [] []),
     assign X' (get_attr lib (var data) data),
     assign y' (get_attr lib (var data) target),
     assign_tuple [X_train, X_test, y_train, y_test]
       (call lib train_test_split [var X', var y'] [(test_size, FloatLit 33 (-2))]),
     assign scalar (call lib StandardScaler [] []),
     assign X_train (method_call lib (var scalar) fit_transform [var X_train]),
     assign X_test (method_call lib (var scalar) transform [var X_test]),
     assign_tuple [X_train, X_dsel, y_train, y_dsel]
       (call lib train_test_split [var X_train, var y_train]
          [(test_size, FloatLit 5 (-1))])]"

definition pool_cell :: "('o, 'w, 'e) library \<Rightarrow> ('o, 'w, 'e) stmt list" where
  "pool_cell lib =
    [assign model
       (call lib CalibratedClassifierCV
          [call lib Perceptron [] [(max_iter, IntLit 10)]] []),
     assign pool_classifiers
       (call lib BaggingClassifier [var model] [(n_estimators, IntLit 10)]),
     expr_stmt (method_call lib (var pool_classifiers) fit [var X_train, var y_train])]"

definition init_cell :: "('o, 'w, 'e) library \<Rightarrow> ('o, 'w, 'e) stmt list" where
  "init_cell lib =
    [assign knorau (call lib KNORAU [var pool_classifiers] []),
     assign kne (call lib KNORAE [var pool_classifiers] []),
     assign desp (call lib DESP [var pool_classifiers] []),
     assign ola (call lib OLA [var pool_classifiers] []),
     assign mcb (call lib MCB [var pool_classifiers] []),
     assign apriori (call lib APriori [var pool_classifiers] []),
     assign meta (call lib METADES [var pool_classifiers] [])]"

definition fit_cell :: "('o, 'w, 'e) library \<Rightarrow> ('o, 'w, 'e) stmt list" where
  "fit_cell lib =
    [expr_stmt (method_call lib (var knorau) fit [var X_dsel, var y_dsel]),
     expr_stmt (method_call lib (var kne) fit [var X_dsel, var y_dsel]),
     expr_stmt (method_call lib (var desp) fit [var X_dsel, var y_dsel]),
     expr_stmt (method_call lib (var ola) fit [var X_dsel, var y_dsel]),
     expr_stmt (method_call lib (var mcb) fit [var X_dsel, var y_dsel]),
     expr_stmt (method_call lib (var apriori) fit [var X_dsel, var y_dsel]),
     expr_stmt (method_call lib (var meta) fit [var X_dsel, var y_dsel])]"

definition score_cell :: "('o, 'w, 'e) library \<Rightarrow> ('o, 'w, 'e) stmt list" where
  "score_cell lib =
    [print_line ''Classification accuracy OLA: ''
       (method_call lib (var ola) score [var X_test, var y_test]),
     print_line ''Classification accuracy A priori: ''
       (method_call lib (var apriori) score [var X_test, var y_test]),
     print_line ''Classification accuracy KNORA-Union: ''
       (method_call lib (var knorau) score [var X_test, var y_test]),
     print_line ''Classification accuracy KNORA-Eliminate: ''
       (method_call lib (var kne) score [var X_test, var y_test]),
     print_line ''Classification accuracy DESP: ''
       (method_call lib (var desp) score [var X_test, var y_test]),
     print_line ''Classification accuracy META-DES: ''
       (method_call lib (var apriori) score [var X_test, var y_test])]"

definition notebook_cells :: "('o, 'w, 'e) library \<Rightarrow> ('o, 'w, 'e) stmt list" where
  "notebook_cells lib =
     import_cell lib @ data_cell lib @ pool_cell lib @ init_cell lib @ fit_cell lib
       @ score_cell lib"

definition initial :: "'w \<Rightarrow> ('o, 'w, 'e) state" where
  "initial w = \<lparr>globals = Map.empty, world = w, events = []\<rparr>"

definition notebook ::
  "('o, 'w, 'e) library \<Rightarrow> 'w \<Rightarrow> ('e exn \<times> ('o, 'w, 'e) state) + ('o, 'w, 'e) state" where
  "notebook lib w = exec (notebook_cells lib) (initial w)"

text \<open>
  The notebook splits at three places that the properties below speak about: after the
  first \<open>train_test_split\<close>, after the scaling of \<open>X_test\<close>, and after the last \<open>fit\<close>.
\<close>

definition upto_first_split :: "('o, 'w, 'e) library \<Rightarrow> ('o, 'w, 'e) stmt list" where
  "upto_first_split lib = import_cell lib @ take 4 (data_cell lib)"

definition fitting_part :: "('o, 'w, 'e) library \<Rightarrow> ('o, 'w, 'e) stmt list" where
  "fitting_part lib =
     drop 4 (data_cell lib) @ pool_cell lib @ init_cell lib @ fit_cell lib"

definition upto_scaling :: "('o, 'w, 'e) library \<Rightarrow> ('o, 'w, 'e) stmt list" where
  "upto_scaling lib = import_cell lib @ take 7 (data_cell lib)"

definition after_scaling :: "('o, 'w, 'e) library \<Rightarrow> ('o, 'w, 'e) stmt list" where
  "after_scaling lib =
     drop 7 (data_cell lib) @ pool_cell lib @ init_cell lib @ fit_cell lib @ score_cell lib"

definition upto_last_fit :: "('o, 'w, 'e) library \<Rightarrow> ('o, 'w, 'e) stmt list" where
  "upto_last_fit lib =
     import_cell lib @ data_cell lib @ pool_cell lib @ init_cell lib @ fit_cell lib"

subsection \<open>Observations of a run\<close>

text \<open>The state in which a run ended, whether it completed or raised.\<close>

definition final :: "('x \<times> 's) + 's \<Rightarrow> 's" where
  "final r = (case r of Inl (x, t) \<Rightarrow> t | Inr t \<Rightarrow> t)"

definition trace :: "('o, 'w, 'e) library \<Rightarrow> 'w \<Rightarrow> ('o, 'e) event list" where
  "trace lib w = events (final (notebook lib w))"

text \<open>What can be seen of a run from outside: the exception, the library state, the events.\<close>

definition observable ::
  "('e exn \<times> ('o, 'w, 'e) state) + ('o, 'w, 'e) state
     \<Rightarrow> 'e exn option \<times> 'w \<times> ('o, 'e) event list" where
  "observable r =
     (case r of
        Inl (x, t) \<Rightarrow> (Some x, world t, events t)
      | Inr t \<Rightarrow> (None, world t, events t))"

fun failed :: "('o, 'e) event \<Rightarrow> bool" where
  "failed (Invoked f args kw (Inl e)) = True"
| "failed _ = False"

text \<open>The printed lines, in order: label and value.\<close>

fun printed :: "('o, 'e) event list \<Rightarrow> (string \<times> 'o val) list" where
  "printed [] = []"
| "printed (Printed l v # es) = (l, v) # printed es"
| "printed (Invoked f args kw r # es) = printed es"

text \<open>The invocations of one operation, in order: arguments, keywords, outcome.\<close>

fun calls_to :: "op \<Rightarrow> ('o, 'e) event list \<Rightarrow> ('o val list \<times> kwargs \<times> ('e + 'o val)) list" where
  "calls_to f [] = []"
| "calls_to f (Invoked g args kw r # es) =
     (if g = f then (args, kw, r) # calls_to f es else calls_to f es)"
| "calls_to f (Printed l v # es) = calls_to f es"

text \<open>The keyword names written in any invocation.\<close>

fun keyword_names :: "('o, 'e) event list \<Rightarrow> ident list" where
  "keyword_names [] = []"
| "keyword_names (Invoked f args kw r # es) = map fst kw @ keyword_names es"
| "keyword_names (Printed l v # es) = keyword_names es"

text \<open>
  A relation \<open>d\<close> between arrays holds of the two parts that a \<open>train_test_split\<close> of the
  run returned, for the features and for the labels.
\<close>

fun splits_by :: "('o val \<Rightarrow> 'o val \<Rightarrow> bool) \<Rightarrow> ('o, 'e) event \<Rightarrow> bool" where
  "splits_by d (Invoked f args kw (Inr (Tup [a, b, c, e]))) =
     (f \<noteq> Call [sklearn, model_selection] train_test_split \<or> (d a b \<and> d c e))"
| "splits_by d _ = True"

text \<open>Rebinding or unbinding one global name.\<close>

definition rebind :: "ident \<Rightarrow> 'o val option \<Rightarrow> ('o, 'w, 'e) state \<Rightarrow> ('o, 'w, 'e) state" where
  "rebind x m s = s\<lparr>globals := (globals s)(x := m)\<rparr>"

subsection \<open>The order of steps that the specification gives\<close>












subsection \<open>The steps with their data flow\<close>

text \<open>
  The same order, with what each step is applied to. \<open>returned es\<close> lists the values that
  the invocations of a run returned, in order; \<open>ret rs k\<close> is the value that invocation
  number \<open>k\<close> returned (counting from 0) and \<open>part i v\<close> is component \<open>i\<close> of a returned
  sequence; where there is none, both give the empty sequence. \<open>script_trace rs\<close> is the
  run in which the invocations return \<open>rs\<close>: each event is applied to values that earlier
  events returned, as the notebook's variables carry them.
\<close>

fun returned :: "('o, 'e) event list \<Rightarrow> 'o val list" where
  "returned [] = []"
| "returned (Invoked f args kw (Inr v) # es) = v # returned es"
| "returned (Invoked f args kw (Inl e) # es) = returned es"
| "returned (Printed l v # es) = returned es"

definition ret :: "'o val list \<Rightarrow> nat \<Rightarrow> 'o val" where
  "ret rs k = (case drop k rs of [] \<Rightarrow> Tup [] | v # _ \<Rightarrow> v)"

definition part :: "nat \<Rightarrow> 'o val \<Rightarrow> 'o val" where
  "part i v = (case v of Tup vs \<Rightarrow> ret vs i | _ \<Rightarrow> Tup [])"

text \<open>What an event asks for: everything but the outcome of the invocation.\<close>

datatype 'o request = Calls op "'o val list" kwargs | Shows string "'o val"

fun request_of :: "('o, 'e) event \<Rightarrow> 'o request" where
  "request_of (Invoked f args kw r) = Calls f args kw"
| "request_of (Printed l v) = Shows l v"

definition script_trace :: "'o val list \<Rightarrow> ('o, 'e) event list" where
  "script_trace rs =
     (let r = ret rs;
          dataset = r 13; features = r 14; labels = r 15;
          train0 = part 0 (r 16); test0 = part 1 (r 16);
          train_labels0 = part 2 (r 16); test_labels = part 3 (r 16);
          scaler = r 17; scaled_train = r 18; scaled_test = r 19;
          train = part 0 (r 20); dsel = part 1 (r 20);
          train_labels = part 2 (r 20); dsel_labels = part 3 (r 20);
          perceptron = r 21; calibrated = r 22; pool = r 23;
          sel_knorau = r 25; sel_kne = r 26; sel_desp = r 27; sel_ola = r 28;
          sel_mcb = r 29; sel_apriori = r 30; sel_meta = r 31
      in
      [Invoked (Import [sklearn, datasets] load_breast_cancer) [] [] (Inr (r 0)),
       Invoked (Import [sklearn, model_selection] train_test_split) [] [] (Inr (r 1)),
       Invoked (Import [sklearn, preprocessing] StandardScaler) [] [] (Inr (r 2)),
       Invoked (Import [sklearn, linear_model] Perceptron) [] [] (Inr (r 3)),
       Invoked (Import [sklearn, calibration] CalibratedClassifierCV) [] [] (Inr (r 4)),
       Invoked (Import [sklearn, ensemble] BaggingClassifier) [] [] (Inr (r 5)),
       Invoked (Import [deslib, dcs, ola] OLA) [] [] (Inr (r 6)),
       Invoked (Import [deslib, dcs, a_priori] APriori) [] [] (Inr (r 7)),
       Invoked (Import [deslib, dcs, mcb] MCB) [] [] (Inr (r 8)),
       Invoked (Import [deslib, des, des_p] DESP) [] [] (Inr (r 9)),
       Invoked (Import [deslib, des, knora_u] KNORAU) [] [] (Inr (r 10)),
       Invoked (Import [deslib, des, knora_e] KNORAE) [] [] (Inr (r 11)),
       Invoked (Import [deslib, des, meta_des] METADES) [] [] (Inr (r 12)),
       Invoked (Call [sklearn, datasets] load_breast_cancer) [] [] (Inr dataset),
       Invoked (GetAttr data) [dataset] [] (Inr features),
       Invoked (GetAttr target) [dataset] [] (Inr labels),
       Invoked (Call [sklearn, model_selection] train_test_split) [features, labels]
         [(test_size, FloatLit 33 (-2))] (Inr (r 16)),
       Invoked (Call [sklearn, preprocessing] StandardScaler) [] [] (Inr scaler),
       Invoked (Method fit_transform) [scaler, train0] [] (Inr scaled_train),
       Invoked (Method transform) [scaler, test0] [] (Inr scaled_test),
       Invoked (Call [sklearn, model_selection] train_test_split) [scaled_train, train_labels0]
         [(test_size, FloatLit 5 (-1))] (Inr (r 20)),
       Invoked (Call [sklearn, linear_model] Perceptron) [] [(max_iter, IntLit 10)]
         (Inr perceptron),
       Invoked (Call [sklearn, calibration] CalibratedClassifierCV) [perceptron] []
         (Inr calibrated),
       Invoked (Call [sklearn, ensemble] BaggingClassifier) [calibrated]
         [(n_estimators, IntLit 10)] (Inr pool),
       Invoked (Method fit) [pool, train, train_labels] [] (Inr (r 24)),
       Invoked (Call [deslib, des, knora_u] KNORAU) [pool] [] (Inr sel_knorau),
       Invoked (Call [deslib, des, knora_e] KNORAE) [pool] [] (Inr sel_kne),
       Invoked (Call [deslib, des, des_p] DESP) [pool] [] (Inr sel_desp),
       Invoked (Call [deslib, dcs, ola] OLA) [pool] [] (Inr sel_ola),
       Invoked (Call [deslib, dcs, mcb] MCB) [pool] [] (Inr sel_mcb),
       Invoked (Call [deslib, dcs, a_priori] APriori) [pool] [] (Inr sel_apriori),
       Invoked (Call [deslib, des, meta_des] METADES) [pool] [] (Inr sel_meta),
       Invoked (Method fit) [sel_knorau, dsel, dsel_labels] [] (Inr (r 32)),
       Invoked (Method fit) [sel_kne, dsel, dsel_labels] [] (Inr (r 33)),
       Invoked (Method fit) [sel_desp, dsel, dsel_labels] [] (Inr (r 34)),
       Invoked (Method fit) [sel_ola, dsel, dsel_labels] [] (Inr (r 35)),
       Invoked (Method fit) [sel_mcb, dsel, dsel_labels] [] (Inr (r 36)),
       Invoked (Method fit) [sel_apriori, dsel, dsel_labels] [] (Inr (r 37)),
       Invoked (Method fit) [sel_meta, dsel, dsel_labels] [] (Inr (r 38)),
       Invoked (Method score) [sel_ola, scaled_test, test_labels] [] (Inr (r 39)),
       Printed ''Classification accuracy OLA: '' (r 39),
       Invoked (Method score) [sel_apriori, scaled_test, test_labels] [] (Inr (r 40)),
       Printed ''Classification accuracy A priori: '' (r 40),
       Invoked (Method score) [sel_knorau, scaled_test, test_labels] [] (Inr (r 41)),
       Printed ''Classification accuracy KNORA-Union: '' (r 41),
       Invoked (Method score) [sel_kne, scaled_test, test_labels] [] (Inr (r 42)),
       Printed ''Classification accuracy KNORA-Eliminate: '' (r 42),
       Invoked (Method score) [sel_desp, scaled_test, test_labels] [] (Inr (r 43)),
       Printed ''Classification accuracy DESP: '' (r 43),
       Invoked (Method score) [sel_apriori, scaled_test, test_labels] [] (Inr (r 44)),
       Printed ''Classification accuracy META-DES: '' (r 44)])"

subsection \<open>A sample library\<close>

text \<open>
  A small library to run the notebook on. Its dataset has six samples; a feature matrix
  and a label vector are the lists of their sample numbers. \<open>train_test_split\<close> rotates the
  samples by the seed it is given as \<open>random_state\<close>, or, given none, by the state of the
  library's random number generator, which it then advances; the first \<open>test_size\<close> of
  them (rounded up) are the test part. Scaling keeps the samples, \<open>fit\<close> returns its
  receiver and draws a random number, and \<open>score\<close> returns an object that names the kind
  of estimator scored and the samples it was scored on.
\<close>

datatype sample_obj =
    Module
  | Bunch
  | Features "nat list"
  | Labels "nat list"
  | Estimator ident "sample_obj list"
  | Accuracy ident "nat list"

datatype sample_error = TypeError

fun objects :: "sample_obj val list \<Rightarrow> sample_obj list" where
  "objects [] = []"
| "objects (Obj b # vs) = b # objects vs"
| "objects (_ # vs) = objects vs"

fun rotate_by :: "nat \<Rightarrow> 'a list \<Rightarrow> 'a list" where
  "rotate_by 0 xs = xs"
| "rotate_by (Suc n) xs = rotate_by n (case xs of [] \<Rightarrow> [] | a # r \<Rightarrow> r @ [a])"

fun test_count :: "literal option \<Rightarrow> nat \<Rightarrow> nat" where
  "test_count (Some (FloatLit m e)) n =
     (if e < 0 then nat ((int n * m + 10 ^ nat (- e) - 1) div 10 ^ nat (- e)) else n)"
| "test_count (Some (IntLit k)) n = min n (nat k)"
| "test_count None n = (n + 3) div 4"

definition sample_split ::
  "nat list \<Rightarrow> nat list \<Rightarrow> kwargs \<Rightarrow> nat \<Rightarrow> sample_error + (sample_obj val \<times> nat)" where
  "sample_split xs ys kw w =
     (let seeded = map_of kw random_state;
          seed = (case seeded of Some (IntLit k) \<Rightarrow> nat k | _ \<Rightarrow> w);
          k = test_count (map_of kw test_size) (length xs);
          xs1 = rotate_by seed xs;
          ys1 = rotate_by seed ys
      in Inr (Tup [Obj (Features (drop k xs1)), Obj (Features (take k xs1)),
                   Obj (Labels (drop k ys1)), Obj (Labels (take k ys1))],
              (case seeded of None \<Rightarrow> Suc w | _ \<Rightarrow> w)))"

fun sample_library :: "(sample_obj, nat, sample_error) library" where
  "sample_library (Import m n) [] [] w = Inr (Obj Module, w)"
| "sample_library (Call m n) args kw w =
     (if n = load_breast_cancer then Inr (Obj Bunch, w)
      else if n = train_test_split then
        (case args of
           [Obj (Features xs), Obj (Labels ys)] \<Rightarrow> sample_split xs ys kw w
         | _ \<Rightarrow> Inl TypeError)
      else Inr (Obj (Estimator n (objects args)), w))"
| "sample_library (GetAttr a) [Obj Bunch] [] w =
     (if a = data then Inr (Obj (Features [0, 1, 2, 3, 4, 5]), w)
      else if a = target then Inr (Obj (Labels [0, 1, 2, 3, 4, 5]), w)
      else Inl TypeError)"
| "sample_library (Method m) (Obj (Estimator n ps) # args) kw w =
     (if m = fit then Inr (Obj (Estimator n ps), Suc w)
      else if m = fit_transform \<or> m = transform then
        (case args of
           [Obj (Features xs)] \<Rightarrow> Inr (Obj (Features xs), w)
         | _ \<Rightarrow> Inl TypeError)
      else if m = score then
        (case args of
           [Obj (Features xs), Obj (Labels ys)] \<Rightarrow> Inr (Obj (Accuracy n xs), w)
         | _ \<Rightarrow> Inl TypeError)
      else Inl TypeError)"
| "sample_library _ _ _ w = Inl TypeError"

text \<open>The pool and the dynamic-selection estimators that the sample library builds.\<close>

definition sample_pool :: sample_obj where
  "sample_pool =
     Estimator BaggingClassifier [Estimator CalibratedClassifierCV [Estimator Perceptron []]]"

definition selector :: "ident \<Rightarrow> sample_obj val" where
  "selector n = Obj (Estimator n [sample_pool])"

text \<open>The same library with a \<open>transform\<close> that raises.\<close>

definition broken_library :: "(sample_obj, nat, sample_error) library" where
  "broken_library f args kw w =
     (if f = Method transform then Inl TypeError else sample_library f args kw w)"

text \<open>Two arrays are apart when they share no sample.\<close>

fun samples :: "sample_obj val \<Rightarrow> nat list" where
  "samples (Obj (Features xs)) = xs"
| "samples (Obj (Labels xs)) = xs"
| "samples _ = []"

definition apart :: "sample_obj val \<Rightarrow> sample_obj val \<Rightarrow> bool" where
  "apart a b = (\<forall>i \<in> set (samples a). i \<notin> set (samples b))"

subsection \<open>Postconditions of runs\<close>

text \<open>
  \<open>post Q E c s\<close>: running \<open>c\<close> from \<open>s\<close> either completes in a result satisfying \<open>Q\<close> or
  raises an exception \<open>x\<close> in a state \<open>t\<close> with \<open>E x t\<close>.
\<close>

definition post ::
  "('r \<Rightarrow> bool) \<Rightarrow> ('x \<Rightarrow> 's \<Rightarrow> bool) \<Rightarrow> ('s \<Rightarrow> ('x \<times> 's) + 'r) \<Rightarrow> 's \<Rightarrow> bool" where
  "post Q E c s = (case c s of Inl (x, t) \<Rightarrow> E x t | Inr r \<Rightarrow> Q r)"

subsection \<open>Frame properties\<close>

text \<open>An expression that binds no global name, however it ends.\<close>

definition reads_only :: "('a, 'o, 'w, 'e) comp \<Rightarrow> bool" where
  "reads_only c \<longleftrightarrow>
     (\<forall>s. case c s of Inl (x, t) \<Rightarrow> globals t = globals s | Inr (v, t) \<Rightarrow> globals t = globals s)"

text \<open>A statement that leaves the binding of \<open>x\<close> as it was, however it ends.\<close>

definition keeps :: "ident \<Rightarrow> ('o, 'w, 'e) stmt \<Rightarrow> bool" where
  "keeps x c \<longleftrightarrow> (\<forall>s. globals (final (c s)) x = globals s x)"

text \<open>
  An expression or a statement that does not depend on the binding of \<open>x\<close>: run with \<open>x\<close>
  rebound or unbound, it does the same, and ends in the same state with \<open>x\<close> rebound.
\<close>

definition ignores_e :: "ident \<Rightarrow> ('a, 'o, 'w, 'e) comp \<Rightarrow> bool" where
  "ignores_e x c \<longleftrightarrow>
     (\<forall>s m. c (rebind x m s) = map_sum (map_prod id (rebind x m)) (map_prod id (rebind x m)) (c s))"

definition ignores :: "ident \<Rightarrow> ('o, 'w, 'e) stmt \<Rightarrow> bool" where
  "ignores x c \<longleftrightarrow>
     (\<forall>s m. c (rebind x m s) = map_sum (map_prod id (rebind x m)) (rebind x m) (c s))"

text \<open>An operation of the library that never changes the library's state.\<close>

definition readonly :: "('o, 'w, 'e) library \<Rightarrow> op \<Rightarrow> bool" where
  "readonly lib f \<longleftrightarrow> (\<forall>args kw w. case lib f args kw w of Inl e \<Rightarrow> True | Inr (v, w') \<Rightarrow> w' = w)"

text \<open>
  The events that can fit something: every invocation that is neither a \<open>transform\<close> nor
  a \<open>score\<close>.
\<close>

fun fits_something :: "('o, 'e) event \<Rightarrow> bool" where
  "fits_something (Invoked f args kw r) = (f \<noteq> Method transform \<and> f \<noteq> Method score)"
| "fits_something (Printed l v) = False"

section \<open>Reasoning about runs\<close>

subsection \<open>Postconditions of the expressions and statements\<close>

lemma post_var:
  "post Q E (var x) s =
     (case globals s x of None \<Rightarrow> E (NameError x) s | Some v \<Rightarrow> Q (v, s))"
  by (simp add: post_def var_def split: option.splits)

lemma post_invoke:
  "post Q E (invoke lib f args kw) s \<longleftrightarrow>
     (\<forall>e. lib f args kw (world s) = Inl e \<longrightarrow>
        E (Raised e) (s\<lparr>events := events s @ [Invoked f args kw (Inl e)]\<rparr>)) \<and>
     (\<forall>v w'. lib f args kw (world s) = Inr (v, w') \<longrightarrow>
        Q (v, s\<lparr>world := w', events := events s @ [Invoked f args kw (Inr v)]\<rparr>))"
  by (cases "lib f args kw (world s)") (auto simp: post_def invoke_def)

lemma post_invoke_any:
  assumes "\<And>e. E (Raised e) (s\<lparr>events := events s @ [Invoked f args kw (Inl e)]\<rparr>)"
    and "\<And>v w'. Q (v, s\<lparr>world := w', events := events s @ [Invoked f args kw (Inr v)]\<rparr>)"
  shows "post Q E (invoke lib f args kw) s"
  using assms by (simp add: post_invoke)

lemma post_eval_args_Nil: "post Q E (eval_args []) s = Q ([], s)"
  by (simp add: post_def)

lemma post_eval_args_Cons:
  "post Q E (eval_args (a # as)) s =
     post (\<lambda>(v, s1). post (\<lambda>(vs, s2). Q (v # vs, s2)) E (eval_args as) s1) E a s"
  by (auto simp: post_def split: sum.splits prod.splits)

lemma post_call:
  "post Q E (call lib f args kw) s =
     post (\<lambda>(fv, s1). post (\<lambda>(vs, s2).
        (case fv of
           Callable m n \<Rightarrow> post Q E (invoke lib (Call m n) vs kw) s2
         | _ \<Rightarrow> post Q E (invoke lib CallValue (fv # vs) kw) s2))
        E (eval_args args) s1) E (var f) s"
  by (auto simp: post_def call_def split: sum.splits prod.splits val.splits)

lemma post_method_call:
  "post Q E (method_call lib r m args) s =
     post (\<lambda>(rv, s1). post (\<lambda>(vs, s2). post Q E (invoke lib (Method m) (rv # vs) []) s2)
        E (eval_args args) s1) E r s"
  by (auto simp: post_def method_call_def split: sum.splits prod.splits)

lemma post_get_attr:
  "post Q E (get_attr lib r a) s =
     post (\<lambda>(rv, s1). post Q E (invoke lib (GetAttr a) [rv] []) s1) E r s"
  by (auto simp: post_def get_attr_def split: sum.splits prod.splits)

lemma post_import_from:
  "post Q E (import_from lib m n) s =
     post (\<lambda>(v, s1). Q (s1\<lparr>globals := (globals s1)(n \<mapsto> Callable m n)\<rparr>)) E
       (invoke lib (Import m n) [] []) s"
  by (auto simp: post_def import_from_def split: sum.splits prod.splits)

lemma post_assign:
  "post Q E (assign x e) s =
     post (\<lambda>(v, s1). Q (s1\<lparr>globals := (globals s1)(x \<mapsto> v)\<rparr>)) E e s"
  by (auto simp: post_def assign_def split: sum.splits prod.splits)

lemma post_assign_tuple:
  "post Q E (assign_tuple xs e) s =
     post (\<lambda>(v, s1).
        (case v of
           Tup vs \<Rightarrow>
             if length vs = length xs
             then Q (s1\<lparr>globals := bind_all xs vs (globals s1)\<rparr>)
             else E UnpackError s1
         | _ \<Rightarrow> E UnpackError s1)) E e s"
  by (auto simp: post_def assign_tuple_def split: sum.splits prod.splits val.splits)

lemma post_expr_stmt:
  "post Q E (expr_stmt e) s = post (\<lambda>(v, s1). Q s1) E e s"
  by (auto simp: post_def expr_stmt_def split: sum.splits prod.splits)

lemma post_print_line:
  "post Q E (print_line label e) s =
     post (\<lambda>(v, s1). Q (s1\<lparr>events := events s1 @ [Printed label v]\<rparr>)) E e s"
  by (auto simp: post_def print_line_def split: sum.splits prod.splits)

text \<open>
  \<open>post_steps\<close> reduces a statement to its library invocations; \<open>post_invoke\<close> or
  \<open>post_invoke_any\<close> then steps over one invocation, with or without recording what the
  library returned.
\<close>

lemmas post_steps =
  post_var post_eval_args_Nil post_eval_args_Cons post_call post_method_call post_get_attr
  post_import_from post_assign post_assign_tuple post_expr_stmt post_print_line

lemma post_exec_Nil: "Q s \<Longrightarrow> post Q E (exec []) s"
  by (simp add: post_def)

lemma post_exec_Cons:
  "post (\<lambda>s1. post Q E (exec cs) s1) E c s \<Longrightarrow> post Q E (exec (c # cs)) s"
  by (auto simp: post_def split: sum.splits prod.splits)

lemma exec_append:
  "exec (cs @ ds) s = (case exec cs s of Inl x \<Rightarrow> Inl x | Inr s1 \<Rightarrow> exec ds s1)"
  by (induction cs arbitrary: s) (auto split: sum.splits)

lemma post_exec_append:
  "post (\<lambda>s1. post Q E (exec ds) s1) E (exec cs) s \<Longrightarrow> post Q E (exec (cs @ ds)) s"
  by (auto simp: post_def exec_append split: sum.splits prod.splits)

lemma length_eq_4 [simp]:
  "length vs = Suc (Suc (Suc (Suc 0))) \<longleftrightarrow> (\<exists>a b c d. vs = [a, b, c, d])"
  by (auto simp: length_Suc_conv)

declare exec.simps(2) [simp del]

lemmas cell_defs =
  import_cell_def data_cell_def pool_cell_def init_cell_def fit_cell_def score_cell_def

lemma post_notebook:
  "post Q E (exec (notebook_cells lib)) (initial w) \<Longrightarrow>
     (case notebook lib w of Inl (x, t) \<Rightarrow> E x t | Inr t \<Rightarrow> Q t)"
  by (simp add: post_def notebook_def)

lemma printed_snoc_invoked: "printed (es @ [Invoked g as k r]) = printed es"
  by (induction es rule: printed.induct) simp_all


section \<open>Exceptions\<close>

text \<open>
  However a run ends: a completed run has no failed invocation; a run that ends in an
  exception of the library has that failed invocation as its last event and none before;
  the notebook never reads an unbound name; and a failed tuple assignment follows
  invocations that all returned.
\<close>

lemma run_outcome:
  "post (\<lambda>t. \<not> list_ex failed (events t))
        (\<lambda>x t. case x of
                  Raised e \<Rightarrow>
                    (\<exists>f args kw es. events t = es @ [Invoked f args kw (Inl e)] \<and>
                       \<not> list_ex failed es)
                | NameError n \<Rightarrow> False
                | UnpackError \<Rightarrow> \<not> list_ex failed (events t))
     (exec (notebook_cells lib)) (initial w)"
  unfolding notebook_cells_def cell_defs initial_def append.simps
  apply (rule post_exec_Cons post_invoke_any post_exec_Nil | simp add: post_steps
         | clarsimp split: val.splits)+
  done

text \<open>
  Claim C7. The notebook handles no exception: whenever a library invocation of a run
  raises \<open>e\<close>, the run ends with \<open>e\<close> at that invocation. It is the last event of the run,
  every invocation before it returned, and nothing is printed after it.
\<close>

theorem exception_propagates:
  assumes "Invoked f args kw (Inl e) \<in> set (trace lib w)"
  shows "\<exists>t es. notebook lib w = Inl (Raised e, t) \<and>
           events t = es @ [Invoked f args kw (Inl e)] \<and> \<not> list_ex failed es \<and>
           printed (events t) = printed es"
proof (cases "notebook lib w")
  case (Inr t)
  with post_notebook [OF run_outcome, of lib w] have "\<not> list_ex failed (events t)"
    by simp
  moreover from assms Inr have "Invoked f args kw (Inl e) \<in> set (events t)"
    by (simp add: trace_def final_def)
  ultimately show ?thesis
    by (auto simp: list_ex_iff)
next
  case (Inl p)
  obtain x t where p: "p = (x, t)" by (cases p)
  from assms Inl p have mem: "Invoked f args kw (Inl e) \<in> set (events t)"
    by (simp add: trace_def final_def)
  show ?thesis
  proof (cases x)
    case (Raised e')
    with post_notebook [OF run_outcome, of lib w] Inl p
    obtain f' args' kw' es where es: "events t = es @ [Invoked f' args' kw' (Inl e')]"
      and ok: "\<not> list_ex failed es"
      by auto
    from mem es ok have "Invoked f args kw (Inl e) = Invoked f' args' kw' (Inl e')"
      by (auto simp: list_ex_iff)
    with es ok Inl p Raised show ?thesis
      by (auto simp: printed_snoc_invoked)
  next
    case (NameError n)
    with post_notebook [OF run_outcome, of lib w] Inl p show ?thesis
      by simp
  next
    case UnpackError
    with post_notebook [OF run_outcome, of lib w] Inl p
    have "\<not> list_ex failed (events t)" by simp
    with mem show ?thesis
      by (auto simp: list_ex_iff)
  qed
qed

text \<open>On the sample library with a raising \<open>transform\<close>, the run stops there.\<close>

lemma broken_run:
  "post (\<lambda>t. False)
        (\<lambda>x t. Invoked (Method transform)
                  [Obj (Estimator StandardScaler []), Obj (Features [0, 1])] [] (Inl TypeError)
                  \<in> set (events t))
     (exec (notebook_cells broken_library)) (initial 0)"
  unfolding notebook_cells_def cell_defs initial_def append.simps
  apply (rule post_exec_Cons post_exec_Nil
         | clarsimp simp: post_steps post_invoke broken_library_def sample_split_def
             split: val.splits)+
  done

theorem exception_propagates_witness:
  "Invoked (Method transform) [Obj (Estimator StandardScaler []), Obj (Features [0, 1])] []
     (Inl TypeError) \<in> set (trace broken_library 0) \<and>
   (\<exists>t es. notebook broken_library 0 = Inl (Raised TypeError, t) \<and>
      events t = es @ [Invoked (Method transform)
        [Obj (Estimator StandardScaler []), Obj (Features [0, 1])] [] (Inl TypeError)] \<and>
      \<not> list_ex failed es \<and> printed (events t) = printed es)"
proof -
  have mem: "Invoked (Method transform)
      [Obj (Estimator StandardScaler []), Obj (Features [0, 1])] [] (Inl TypeError)
        \<in> set (trace broken_library 0)"
    using post_notebook [OF broken_run]
    by (auto simp: trace_def final_def split: sum.splits)
  from exception_propagates [OF mem] mem show ?thesis
    by blast
qed

section \<open>Order of execution\<close>



section \<open>Which bindings a part of the notebook writes and reads\<close>

subsection \<open>Expressions bind nothing\<close>

lemma reads_onlyD:
  "reads_only c \<Longrightarrow> c s = Inl (x, t) \<Longrightarrow> globals t = globals s"
  "reads_only c \<Longrightarrow> c s = Inr (v, t) \<Longrightarrow> globals t = globals s"
  unfolding reads_only_def
  by (drule spec [of _ s], simp)+

lemma reads_onlyI:
  assumes "\<And>s x t. c s = Inl (x, t) \<Longrightarrow> globals t = globals s"
    and "\<And>s v t. c s = Inr (v, t) \<Longrightarrow> globals t = globals s"
  shows "reads_only c"
  unfolding reads_only_def using assms by (auto split: sum.splits)

lemma reads_only_var: "reads_only (var x)"
  by (rule reads_onlyI) (auto simp: var_def split: option.splits)

lemma reads_only_invoke: "reads_only (invoke lib f args kw)"
  by (rule reads_onlyI) (auto simp: invoke_def split: sum.splits)

lemma reads_only_eval_args:
  "list_all reads_only as \<Longrightarrow> reads_only (eval_args as)"
proof (induction as)
  case Nil
  show ?case by (rule reads_onlyI) auto
next
  case (Cons a as)
  then have a: "reads_only a" and as: "reads_only (eval_args as)" by simp_all
  show ?case
    by (rule reads_onlyI)
      (auto split: sum.splits prod.splits dest!: reads_onlyD [OF a] reads_onlyD [OF as])
qed

lemma reads_only_call:
  assumes "list_all reads_only as"
  shows "reads_only (call lib f as kw)"
proof -
  note as = reads_only_eval_args [OF assms]
  show ?thesis
    by (rule reads_onlyI)
      (auto simp: call_def split: sum.splits prod.splits val.splits
        dest!: reads_onlyD [OF as] reads_onlyD [OF reads_only_var] reads_onlyD [OF reads_only_invoke])
qed

lemma reads_only_method_call:
  assumes "reads_only r" and "list_all reads_only as"
  shows "reads_only (method_call lib r m as)"
proof -
  note as = reads_only_eval_args [OF assms(2)]
  show ?thesis
    by (rule reads_onlyI)
      (auto simp: method_call_def split: sum.splits prod.splits
        dest!: reads_onlyD [OF as] reads_onlyD [OF assms(1)] reads_onlyD [OF reads_only_invoke])
qed

lemma reads_only_get_attr:
  assumes "reads_only r"
  shows "reads_only (get_attr lib r a)"
  by (rule reads_onlyI)
    (auto simp: get_attr_def split: sum.splits prod.splits
      dest!: reads_onlyD [OF assms] reads_onlyD [OF reads_only_invoke])

lemmas reads_only_intros =
  reads_only_var reads_only_invoke reads_only_call reads_only_method_call reads_only_get_attr

subsection \<open>Statements keep the names they do not assign\<close>

lemma keepsI:
  assumes "\<And>s x t. c s = Inl (x, t) \<Longrightarrow> globals t z = globals s z"
    and "\<And>s t. c s = Inr t \<Longrightarrow> globals t z = globals s z"
  shows "keeps z c"
  unfolding keeps_def final_def using assms by (auto split: sum.splits)

lemma keepsD:
  "keeps z c \<Longrightarrow> c s = Inl (x, t) \<Longrightarrow> globals t z = globals s z"
  "keeps z c \<Longrightarrow> c s = Inr t \<Longrightarrow> globals t z = globals s z"
  unfolding keeps_def final_def
  by (drule spec [of _ s], simp)+

lemma keeps_import_from: "z \<noteq> n \<Longrightarrow> keeps z (import_from lib m n)"
  by (rule keepsI)
    (auto simp: import_from_def split: sum.splits prod.splits
      dest!: reads_onlyD [OF reads_only_invoke])

lemma keeps_assign:
  assumes "z \<noteq> x" and e: "reads_only e"
  shows "keeps z (assign x e)"
  using assms(1)
  by (intro keepsI)
    (auto simp: assign_def split: sum.splits prod.splits dest!: reads_onlyD [OF e])

lemma bind_all_other: "z \<notin> set xs \<Longrightarrow> bind_all xs vs g z = g z"
  by (induction xs vs g rule: bind_all.induct) auto

lemma keeps_assign_tuple:
  assumes "z \<notin> set xs" and e: "reads_only e"
  shows "keeps z (assign_tuple xs e)"
  using assms(1)
  by (intro keepsI)
    (auto simp: assign_tuple_def bind_all_other
      split: sum.splits prod.splits val.splits if_splits dest!: reads_onlyD [OF e])

lemma keeps_expr_stmt:
  assumes e: "reads_only e"
  shows "keeps z (expr_stmt e)"
  by (intro keepsI)
    (auto simp: expr_stmt_def split: sum.splits prod.splits dest!: reads_onlyD [OF e])

lemma keeps_print_line:
  assumes e: "reads_only e"
  shows "keeps z (print_line l e)"
  by (intro keepsI)
    (auto simp: print_line_def split: sum.splits prod.splits dest!: reads_onlyD [OF e])

lemma keeps_exec: "list_all (keeps z) cs \<Longrightarrow> keeps z (exec cs)"
proof (induction cs)
  case Nil
  show ?case by (rule keepsI) auto
next
  case (Cons c cs)
  then have c: "keeps z c" and cs: "keeps z (exec cs)" by simp_all
  show ?case
    by (rule keepsI)
      (auto simp: exec.simps(2) split: sum.splits dest!: keepsD [OF c] keepsD [OF cs])
qed

lemmas keeps_intros =
  keeps_import_from keeps_assign keeps_assign_tuple keeps_expr_stmt keeps_print_line

lemma test_bindings_kept:
  "keeps X_test (exec (after_scaling lib))" "keeps y_test (exec (after_scaling lib))"
  by (rule keeps_exec, simp add: after_scaling_def cell_defs keeps_intros reads_only_intros)+

subsection \<open>Independence of a binding\<close>

lemma rebind_simps [simp]:
  "world (rebind x m s) = world s"
  "events (rebind x m s) = events s"
  "globals (rebind x m s) = (globals s)(x := m)"
  by (simp_all add: rebind_def)

lemma rebind_events_update:
  "(rebind x m s)\<lparr>events := es\<rparr> = rebind x m (s\<lparr>events := es\<rparr>)"
  by (simp add: rebind_def)

lemma ignores_eD:
  "ignores_e x c \<Longrightarrow> c s = Inl (e, t) \<Longrightarrow> c (rebind x m s) = Inl (e, rebind x m t)"
  "ignores_e x c \<Longrightarrow> c s = Inr (v, t) \<Longrightarrow> c (rebind x m s) = Inr (v, rebind x m t)"
  by (simp_all add: ignores_e_def)

lemma ignores_eI:
  assumes "\<And>s m e t. c s = Inl (e, t) \<Longrightarrow> c (rebind x m s) = Inl (e, rebind x m t)"
    and "\<And>s m v t. c s = Inr (v, t) \<Longrightarrow> c (rebind x m s) = Inr (v, rebind x m t)"
  shows "ignores_e x c"
  unfolding ignores_e_def
proof (intro allI)
  fix s m
  show "c (rebind x m s) = map_sum (map_prod id (rebind x m)) (map_prod id (rebind x m)) (c s)"
    using assms by (cases "c s") auto
qed

lemma ignoresD:
  "ignores x c \<Longrightarrow> c s = Inl (e, t) \<Longrightarrow> c (rebind x m s) = Inl (e, rebind x m t)"
  "ignores x c \<Longrightarrow> c s = Inr t \<Longrightarrow> c (rebind x m s) = Inr (rebind x m t)"
  by (simp_all add: ignores_def)

lemma ignoresI:
  assumes "\<And>s m e t. c s = Inl (e, t) \<Longrightarrow> c (rebind x m s) = Inl (e, rebind x m t)"
    and "\<And>s m t. c s = Inr t \<Longrightarrow> c (rebind x m s) = Inr (rebind x m t)"
  shows "ignores x c"
  unfolding ignores_def
proof (intro allI)
  fix s m
  show "c (rebind x m s) = map_sum (map_prod id (rebind x m)) (rebind x m) (c s)"
    using assms by (cases "c s") auto
qed

lemma ignores_e_var: "z \<noteq> x \<Longrightarrow> ignores_e x (var z)"
  by (rule ignores_eI) (auto simp: var_def split: option.splits)

lemma ignores_e_invoke: "ignores_e x (invoke lib f args kw)"
  by (rule ignores_eI) (auto simp: invoke_def rebind_def split: sum.splits)

lemma ignores_e_eval_args: "list_all (ignores_e x) as \<Longrightarrow> ignores_e x (eval_args as)"
proof (induction as)
  case Nil
  show ?case by (rule ignores_eI) auto
next
  case (Cons a as)
  then have a: "ignores_e x a" and as: "ignores_e x (eval_args as)" by simp_all
  show ?case
    by (rule ignores_eI)
      (auto split: sum.splits prod.splits simp: ignores_eD [OF a] ignores_eD [OF as])
qed

lemma ignores_e_method_call:
  assumes r: "ignores_e x r" and "list_all (ignores_e x) as"
  shows "ignores_e x (method_call lib r m as)"
proof -
  note as = ignores_e_eval_args [OF assms(2)]
  show ?thesis
    by (rule ignores_eI)
      (auto simp: method_call_def ignores_eD [OF r] ignores_eD [OF as]
        ignores_eD [OF ignores_e_invoke] split: sum.splits prod.splits)
qed

lemma ignores_print_line:
  assumes e: "ignores_e x e"
  shows "ignores x (print_line l e)"
  by (rule ignoresI)
    (auto simp: print_line_def ignores_eD [OF e] rebind_events_update
      split: sum.splits prod.splits)

lemma ignores_exec: "list_all (ignores x) cs \<Longrightarrow> ignores x (exec cs)"
proof (induction cs)
  case Nil
  show ?case by (rule ignoresI) auto
next
  case (Cons c cs)
  then have c: "ignores x c" and cs: "ignores x (exec cs)" by simp_all
  show ?case
    by (rule ignoresI)
      (auto simp: exec.simps(2) ignoresD [OF c] ignoresD [OF cs] split: sum.splits)
qed

lemma observable_ignores:
  "ignores x c \<Longrightarrow> observable (c (rebind x m s)) = observable (c s)"
  by (cases "c s") (auto simp: observable_def ignoresD)

lemma score_cell_ignores_meta: "ignores meta (exec (score_cell lib))"
  by (rule ignores_exec)
    (simp add: score_cell_def ignores_print_line ignores_e_method_call ignores_e_var)

lemma score_cell_ignores_mcb: "ignores mcb (exec (score_cell lib))"
  by (rule ignores_exec)
    (simp add: score_cell_def ignores_print_line ignores_e_method_call ignores_e_var)

section \<open>Completed runs\<close>

lemma post_complete:
  "post Q (\<lambda>x t. True) (exec (notebook_cells lib)) (initial w) \<Longrightarrow>
     notebook lib w = Inr t \<Longrightarrow> Q t"
  by (simp add: post_def notebook_def)

lemma post_exists: "post Q (\<lambda>x t. False) c s \<Longrightarrow> \<exists>t. c s = Inr t \<and> Q t"
  by (auto simp: post_def split: sum.splits prod.splits)

lemmas sample_defs = sample_split_def sample_pool_def selector_def

text \<open>The run of the notebook on the sample library, from seed 0.\<close>

lemma sample_run_0:
  fixes Q :: "(sample_obj, nat, sample_error) state \<Rightarrow> bool"
  defines "Q \<equiv> (\<lambda>t.
     printed (events t) =
       [(''Classification accuracy OLA: '', Obj (Accuracy OLA [0, 1])),
        (''Classification accuracy A priori: '', Obj (Accuracy APriori [0, 1])),
        (''Classification accuracy KNORA-Union: '', Obj (Accuracy KNORAU [0, 1])),
        (''Classification accuracy KNORA-Eliminate: '', Obj (Accuracy KNORAE [0, 1])),
        (''Classification accuracy DESP: '', Obj (Accuracy DESP [0, 1])),
        (''Classification accuracy META-DES: '', Obj (Accuracy APriori [0, 1]))] \<and>
     map (hd \<circ> fst) (calls_to (Method score) (events t)) =
       [selector OLA, selector APriori, selector KNORAU, selector KNORAE, selector DESP,
        selector APriori] \<and>
     globals t meta = Some (selector METADES) \<and> globals t mcb = Some (selector MCB) \<and>
     globals t X_test = Some (Obj (Features [0, 1])) \<and>
     globals t y_test = Some (Obj (Labels [0, 1])) \<and>
     world t = 10 \<and>
     calls_to (GetAttr data) (events t) =
       [([Obj Bunch], [], Inr (Obj (Features [0, 1, 2, 3, 4, 5])))] \<and>
     calls_to (GetAttr target) (events t) =
       [([Obj Bunch], [], Inr (Obj (Labels [0, 1, 2, 3, 4, 5])))] \<and>
     list_all (splits_by apart) (events t))"
  shows "post Q (\<lambda>x t. False) (exec (notebook_cells sample_library)) (initial 0)"
  unfolding notebook_cells_def cell_defs initial_def append.simps
  apply (rule post_exec_Cons post_exec_Nil
         | clarsimp simp: post_steps post_invoke sample_defs split: val.splits)+
  apply (simp add: Q_def sample_defs apart_def)
  done

lemmas sample_run = post_exists [OF sample_run_0, folded notebook_def]

end
